theory Spec2Isabelle
  imports Complex_Main "HOL-Library.Sublist" "HOL-Library.Stream" "HOL-Library.Log_Nat"
begin

section \<open>Shared vocabulary of the two services\<close>

text \<open>
  Both programs are FastAPI applications. A Python \<^verbatim>\<open>str\<close> is a \<^typ>\<open>string\<close>, one list
  element per character (so \<^const>\<open>length\<close> is Python's \<^verbatim>\<open>len\<close>). JSON values, as
  \<^verbatim>\<open>response.json()\<close> decodes them and as \<^verbatim>\<open>requests.post(json=...)\<close> encodes them, are a
  datatype; a JSON number with a fraction carries the exact value of its double.
\<close>

datatype json =
    JNull
  | JBool bool
  | JInt int
  | JFloat rat
  | JString string
  | JArray "json list"
  | JObject "(string \<times> json) list"

text \<open>
  Python exceptions are values: the class that was raised and the text \<^verbatim>\<open>str(e)\<close>. The
  classes are the ones the two programs can meet: what \<^verbatim>\<open>requests.post\<close> raises on a
  transport failure (\<^verbatim>\<open>ConnectionError\<close> for a refused connection or a failed name lookup,
  \<^verbatim>\<open>ConnectTimeout\<close> and \<^verbatim>\<open>ReadTimeout\<close> when the \<^verbatim>\<open>timeout\<close> elapses), what
  \<^verbatim>\<open>response.json()\<close> raises on a body that is not JSON
  (\<^verbatim>\<open>requests.exceptions.JSONDecodeError\<close> since requests 2.27, the builtin
  \<^verbatim>\<open>ValueError\<close> family before), and the \<^verbatim>\<open>IndexError\<close> of \<^verbatim>\<open>random.choice\<close> on an
  empty sequence.
\<close>

datatype exception_class =
    ConnectionError
  | ConnectTimeout
  | ReadTimeout
  | RequestsJSONDecodeError
  | ValueError
  | IndexError

datatype py_exception = PyException exception_class string

fun exc_class :: "py_exception \<Rightarrow> exception_class" where
  "exc_class (PyException c m) = c"

fun str_of_exc :: "py_exception \<Rightarrow> string" where
  "str_of_exc (PyException c m) = m"

text \<open>\<^verbatim>\<open>isinstance(e, requests.RequestException)\<close>, by the class hierarchy of requests.\<close>

fun is_RequestException :: "exception_class \<Rightarrow> bool" where
  "is_RequestException ConnectionError = True"
| "is_RequestException ConnectTimeout = True"
| "is_RequestException ReadTimeout = True"
| "is_RequestException RequestsJSONDecodeError = True"
| "is_RequestException ValueError = False"
| "is_RequestException IndexError = False"

text \<open>\<^verbatim>\<open>isinstance(e, requests.Timeout)\<close>: the connect and the read timeout.\<close>

fun is_Timeout :: "exception_class \<Rightarrow> bool" where
  "is_Timeout ConnectTimeout = True"
| "is_Timeout ReadTimeout = True"
| "is_Timeout _ = False"

text \<open>
  A request handler either returns its payload or fails: by raising
  \<^verbatim>\<open>HTTPException(status_code, detail)\<close>, which FastAPI turns into that status, or by
  letting another exception escape, which FastAPI answers with status 500.
\<close>

datatype failure =
    HTTPException nat string
  | Uncaught py_exception

text \<open>What a handler does besides returning: the log lines and the outbound HTTP calls, in order.\<close>

record http_post =
  url :: string
  json_body :: json
  timeout :: nat

datatype effect =
    LogInfo string
  | LogError string
  | Post http_post

fun outbound_calls :: "effect list \<Rightarrow> http_post list" where
  "outbound_calls [] = []"
| "outbound_calls (Post c # es) = c # outbound_calls es"
| "outbound_calls (e # es) = outbound_calls es"

section \<open>Service A: the input logger (\<^verbatim>\<open>service_a/main.py\<close>)\<close>

record InputData =
  data :: string
  forward_to_model :: bool

definition SERVICE_B_URL :: string where
  "SERVICE_B_URL = ''http://localhost:8001/predict''"

text \<open>
  The network and the program behind \<^const>\<open>SERVICE_B_URL\<close> are the environment:
  \<^verbatim>\<open>requests.post\<close> either raises or returns a response, of which the handler reads nothing
  but \<^verbatim>\<open>response.json()\<close>, which in turn either raises or returns the decoded body. The
  status code is part of the response and is never looked at (there is no
  \<^verbatim>\<open>raise_for_status\<close>).
\<close>

record response =
  status_code :: nat
  json :: "py_exception + json"

datatype post_result =
    is_Raises: Raises py_exception
  | Responds response

type_synonym network = "http_post \<Rightarrow> post_result"

record identity_payload =
  service :: string
  status :: string

record process_payload =
  process_status :: string
  model_prediction :: "json option"

definition service_a_read_root :: identity_payload where
  "service_a_read_root = \<lparr>service = ''Service A - Input Logger'', status = ''running''\<rparr>"

definition service_a_health_check :: identity_payload where
  "service_a_health_check = \<lparr>service = ''Service A'', status = ''healthy''\<rparr>"

text \<open>
  The \<^verbatim>\<open>except requests.RequestException\<close> clause of \<^verbatim>\<open>process_input\<close>: an exception of
  that family is logged and becomes the 503; any other exception is not caught.
\<close>

definition except_RequestException ::
    "py_exception \<Rightarrow> effect list \<Rightarrow> (failure + process_payload) \<times> effect list" where
  "except_RequestException e done =
     (if is_RequestException (exc_class e)
      then (Inl (HTTPException 503 (''Service B is unavailable: '' @ str_of_exc e)),
            done @ [LogError (''Failed to reach Service B: '' @ str_of_exc e)])
      else (Inl (Uncaught e), done))"

text \<open>
  The arguments of the one \<^verbatim>\<open>requests.post\<close> call of the program: the fixed URL, the body
  \<^verbatim>\<open>{"input": input_data.data}\<close> and the timeout of 3 seconds.
\<close>

definition forward_call :: "InputData \<Rightarrow> http_post" where
  "forward_call input_data =
     \<lparr>url = SERVICE_B_URL,
      json_body = JObject [(''input'', JString (data input_data))],
      timeout = 3\<rparr>"

definition process_input ::
    "network \<Rightarrow> InputData \<Rightarrow> (failure + process_payload) \<times> effect list" where
  "process_input net input_data =
     (let received = LogInfo (''Received input: '' @ data input_data) in
      if forward_to_model input_data then
        (let call = forward_call input_data
         in case net call of
              Raises e \<Rightarrow> except_RequestException e [received, Post call]
            | Responds r \<Rightarrow>
                (case json r of
                   Inl e \<Rightarrow> except_RequestException e [received, Post call]
                 | Inr body \<Rightarrow>
                     (Inr \<lparr>process_status = ''Input logged successfully'',
                           model_prediction = Some body\<rparr>,
                      [received, Post call])))
      else (Inr \<lparr>process_status = ''Input logged successfully'', model_prediction = None\<rparr>,
            [received]))"

text \<open>The routes of the application: each request goes to its handler.\<close>

datatype service_a_request =
    A_read_root
  | A_process_input InputData
  | A_health_check

datatype service_a_payload =
    A_identity identity_payload
  | A_processed process_payload

fun service_a ::
    "network \<Rightarrow> service_a_request \<Rightarrow> (failure + service_a_payload) \<times> effect list" where
  "service_a net A_read_root = (Inr (A_identity service_a_read_root), [])"
| "service_a net (A_process_input input_data) =
     (case process_input net input_data of
        (Inl f, es) \<Rightarrow> (Inl f, es)
      | (Inr p, es) \<Rightarrow> (Inr (A_processed p), es))"
| "service_a net A_health_check = (Inr (A_identity service_a_health_check), [])"

section \<open>Python floats\<close>

text \<open>
  A Python \<^verbatim>\<open>float\<close> is an IEEE 754 binary64 number. A finite one is modelled by its exact
  value, a rational, and every operation by the exact result rounded to the nearest double,
  ties to the even significand. Doubles are the multiples of \<open>2 powi -1074\<close> with at most 53
  significant bits: the spacing of the doubles around \<open>x\<close> is \<open>2 powi e\<close> for the exponent
  \<open>e\<close> below, which is \<open>\<lfloor>log 2 \<bar>x\<bar>\<rfloor> - 52\<close> for a normal \<open>x\<close> and \<open>-1074\<close> for a subnormal one.
  Overflow to an infinity (from \<open>2 ^ 1024\<close> on) is outside the model; no value of this
  program exceeds 100.
\<close>

definition round_half_even :: "rat \<Rightarrow> int" where
  "round_half_even x =
     (let n = \<lfloor>x\<rfloor>; r = x - of_int n
      in if r < 1 / 2 then n
         else if 1 / 2 < r then n + 1
         else if even n then n else n + 1)"

text \<open>The smallest positive double is \<open>2 powi subnormal_exponent\<close>.\<close>

definition subnormal_exponent :: int where
  "subnormal_exponent = - 1074"

text \<open>
  Counted in units of the smallest double, \<open>\<bar>x\<bar>\<close> has \<^const>\<open>bitlen\<close> many bits; the 53 leading
  ones are kept.
\<close>

definition binary64_exponent :: "rat \<Rightarrow> int" where
  "binary64_exponent x =
     max (bitlen \<lfloor>\<bar>x\<bar> / 2 powi subnormal_exponent\<rfloor> - 53 + subnormal_exponent)
         subnormal_exponent"

definition binary64 :: "rat \<Rightarrow> rat" where
  "binary64 x =
     of_int (round_half_even (x / 2 powi binary64_exponent x)) * 2 powi binary64_exponent x"

text \<open>
  \<^verbatim>\<open>round(x, ndigits)\<close> on a float: CPython prints \<open>x\<close> with \<open>ndigits\<close> decimals, correctly
  rounded (half to even, on the exact value of \<open>x\<close>), and reads the decimal back as a double.
\<close>

definition py_round :: "rat \<Rightarrow> nat \<Rightarrow> rat" where
  "py_round x ndigits = binary64 (of_int (round_half_even (x * 10 ^ ndigits)) / 10 ^ ndigits)"

text \<open>
  The format specification \<^verbatim>\<open>.1f\<close>: the decimal with one digit after the point nearest to
  the exact value (half to even), a minus sign first for a negative number.
\<close>

definition digit :: "nat \<Rightarrow> char" where
  "digit n = ''0123456789'' ! (n mod 10)"

fun str_of_nat :: "nat \<Rightarrow> string" where
  "str_of_nat n = (if n < 10 then [digit n] else str_of_nat (n div 10) @ [digit n])"

definition format_1f :: "rat \<Rightarrow> string" where
  "format_1f x =
     (let tenths = nat \<bar>round_half_even (x * 10)\<bar>
      in (if x < 0 then ''-'' else [])
         @ str_of_nat (tenths div 10) @ ''.'' @ [digit tenths])"

section \<open>The module \<^verbatim>\<open>random\<close>\<close>

text \<open>
  The generator behind \<^verbatim>\<open>random.choice\<close> and \<^verbatim>\<open>random.uniform\<close> is process-wide state. It is
  modelled by the stream of raw draws it is still to produce, so that every behaviour of the
  library is the behaviour of some stream: \<^verbatim>\<open>_randbelow(n)\<close> returns a number below \<open>n\<close>,
  \<^verbatim>\<open>random()\<close> a multiple of \<open>2 powi -53\<close> in \<open>[0, 1)\<close>, and each advances the generator.
\<close>

type_synonym rng = "nat stream"

definition random_randbelow :: "nat \<Rightarrow> rng \<Rightarrow> nat \<times> rng" where
  "random_randbelow n g = (shd g mod n, stl g)"

definition random_random :: "rng \<Rightarrow> rat \<times> rng" where
  "random_random g = (of_nat (shd g mod 2 ^ 53) / 2 ^ 53, stl g)"

text \<open>\<^verbatim>\<open>choice(seq)\<close>: \<^verbatim>\<open>IndexError\<close> on an empty sequence, else \<^verbatim>\<open>seq[_randbelow(len(seq))]\<close>.\<close>

definition random_choice :: "'a list \<Rightarrow> rng \<Rightarrow> (py_exception + 'a) \<times> rng" where
  "random_choice seq g =
     (if length seq = 0
      then (Inl (PyException IndexError ''Cannot choose from an empty sequence''), g)
      else (let (i, g') = random_randbelow (length seq) g in (Inr (seq ! i), g')))"

text \<open>\<^verbatim>\<open>uniform(a, b)\<close> is \<^verbatim>\<open>a + (b - a) * random()\<close>, in floating point.\<close>

definition random_uniform :: "rat \<Rightarrow> rat \<Rightarrow> rng \<Rightarrow> rat \<times> rng" where
  "random_uniform a b g =
     (let (u, g') = random_random g
      in (binary64 (a + binary64 (binary64 (b - a) * u)), g'))"

section \<open>Service B: the prediction service (\<^verbatim>\<open>service_b/main.py\<close>)\<close>

record PredictionRequest =
  input :: string

record SimpleMlModel =
  classes :: "string list"

text \<open>
  The state of the process: the module-level \<^verbatim>\<open>model\<close>, the generator of the module
  \<^verbatim>\<open>random\<close>, and the lines logged so far.
\<close>

record service_b_state =
  model :: SimpleMlModel
  rng :: rng
  log_lines :: "string list"

definition logger_info :: "string \<Rightarrow> service_b_state \<Rightarrow> service_b_state" where
  "logger_info line s = s\<lparr>log_lines := log_lines s @ [line]\<rparr>"

text \<open>
  Process start: \<^verbatim>\<open>model = SimpleMlModel()\<close> runs \<^verbatim>\<open>__init__\<close>, which sets the label list
  and logs; the generator is seeded by the operating system, so it is any stream.
\<close>

definition SimpleMlModel_init :: "service_b_state \<Rightarrow> SimpleMlModel \<times> service_b_state" where
  "SimpleMlModel_init s =
     (\<lparr>classes = [''cat'', ''dog'', ''bird'', ''fish'', ''rabbit'']\<rparr>,
      logger_info ''ML model initialized'' s)"

definition service_b_start :: "rng \<Rightarrow> service_b_state" where
  "service_b_start seed =
     (let (m, s) = SimpleMlModel_init \<lparr>model = \<lparr>classes = []\<rparr>, rng = seed, log_lines = []\<rparr>
      in s\<lparr>model := m\<rparr>)"

text \<open>
  The dictionary \<^verbatim>\<open>SimpleMlModel.predict\<close> returns; its key \<^verbatim>\<open>"class"\<close> is the field
  \<open>predicted_class\<close> (\<^verbatim>\<open>class\<close> is a keyword of Isabelle).
\<close>

record PredictionResult =
  predicted_class :: string
  confidence :: rat
  input_length :: int

record PredictionResponse =
  prediction :: PredictionResult
  message :: string

definition SimpleMlModel_predict ::
    "SimpleMlModel \<Rightarrow> string \<Rightarrow> service_b_state
       \<Rightarrow> (py_exception + PredictionResult) \<times> service_b_state" where
  "SimpleMlModel_predict self input_text s =
     (let s1 = logger_info (''Making prediction for input: '' @ input_text) s;
          (chosen, g1) = random_choice (classes self) (rng s1)
      in case chosen of
           Inl e \<Rightarrow> (Inl e, s1\<lparr>rng := g1\<rparr>)
         | Inr cls \<Rightarrow>
             (let (x, g2) = random_uniform (binary64 (7 / 10)) (binary64 (99 / 100)) g1
              in (Inr \<lparr>predicted_class = cls,
                       confidence = py_round x 2,
                       input_length = int (length input_text)\<rparr>,
                  s1\<lparr>rng := g2\<rparr>)))"

definition service_b_read_root :: identity_payload where
  "service_b_read_root = \<lparr>service = ''Service B - ML Prediction'', status = ''running''\<rparr>"

definition predict ::
    "PredictionRequest \<Rightarrow> service_b_state \<Rightarrow> (failure + PredictionResponse) \<times> service_b_state" where
  "predict request s =
     (let s1 = logger_info (''Received prediction request with input: '' @ input request) s
      in case SimpleMlModel_predict (model s1) (input request) s1 of
           (Inl e, s2) \<Rightarrow> (Inl (Uncaught e), s2)
         | (Inr p, s2) \<Rightarrow>
             (Inr \<lparr>prediction = p,
                   message = ''Predicted class: '' @ predicted_class p @ '' with ''
                     @ format_1f (binary64 (confidence p * 100)) @ ''% confidence''\<rparr>,
              s2))"

definition service_b_health_check :: identity_payload where
  "service_b_health_check = \<lparr>service = ''Service B'', status = ''healthy''\<rparr>"

datatype service_b_request =
    B_read_root
  | B_predict PredictionRequest
  | B_health_check

datatype service_b_payload =
    B_identity identity_payload
  | B_predicted PredictionResponse

fun service_b ::
    "service_b_request \<Rightarrow> service_b_state \<Rightarrow> (failure + service_b_payload) \<times> service_b_state" where
  "service_b B_read_root s = (Inr (B_identity service_b_read_root), s)"
| "service_b (B_predict request) s =
     (case predict request s of
        (Inl f, s') \<Rightarrow> (Inl f, s')
      | (Inr p, s') \<Rightarrow> (Inr (B_predicted p), s'))"
| "service_b B_health_check s = (Inr (B_identity service_b_health_check), s)"

text \<open>The state after serving a sequence of requests, one after the other.\<close>

fun service_b_serve :: "service_b_request list \<Rightarrow> service_b_state \<Rightarrow> service_b_state" where
  "service_b_serve [] s = s"
| "service_b_serve (r # rs) s = service_b_serve rs (snd (service_b r s))"

section \<open>Sample environments\<close>

text \<open>
  Three networks the input logger can find itself in: nothing listens on port 8001; the
  peer accepts the connection and never answers; and a peer (a gateway, or a crashed
  application server) that answers with an HTML error page, which is not JSON.
\<close>

definition connection_refused :: network where
  "connection_refused call = Raises (PyException ConnectionError ''Connection refused'')"

definition read_timed_out :: network where
  "read_timed_out call = Raises (PyException ReadTimeout ''Read timed out. (read timeout=3)'')"

definition html_error_page :: network where
  "html_error_page call =
     Responds \<lparr>status_code = 502,
               json = Inl (PyException RequestsJSONDecodeError
                             ''Expecting value: line 1 column 1 (char 0)'')\<rparr>"

section \<open>Rounding to doubles\<close>

text \<open>
  Rounding half to even moves a number by at most one half; rounding to a double moves it by
  at most half the spacing of the doubles around it. These two bounds, and the values of the
  three doubles the program names, are all that is needed of floating point below.
\<close>

lemma round_half_even_error: "\<bar>of_int (round_half_even x) - x\<bar> \<le> 1 / 2"
proof -
  have "of_int \<lfloor>x\<rfloor> \<le> x" "x < of_int \<lfloor>x\<rfloor> + 1"
    by linarith+
  then show ?thesis
    by (auto simp: round_half_even_def Let_def)
qed

lemma round_half_even_eqI:
  assumes "\<bar>x - of_int m\<bar> < 1 / 2"
  shows "round_half_even x = m"
proof -
  have "\<bar>(of_int (round_half_even x) :: rat) - of_int m\<bar> < 1"
    using round_half_even_error [of x] assms by linarith
  then have "\<bar>round_half_even x - m\<bar> < 1"
    by (metis of_int_diff of_int_abs of_int_less_1_iff)
  then show ?thesis by linarith
qed

lemma scaled_upper:
  fixes x :: rat
  assumes "\<bar>x\<bar> < 2 powi k" "subnormal_exponent \<le> k"
  shows "\<lfloor>\<bar>x\<bar> / 2 powi subnormal_exponent\<rfloor> < 2 ^ nat (k - subnormal_exponent)"
proof -
  have "\<bar>x\<bar> / 2 powi subnormal_exponent < 2 powi k / 2 powi subnormal_exponent"
    using assms(1) by (simp add: divide_strict_right_mono)
  also have "\<dots> = 2 powi (k - subnormal_exponent)"
    by (simp add: power_int_diff)
  also have "\<dots> = of_int (2 ^ nat (k - subnormal_exponent))"
    using assms(2) by (simp add: power_int_nonneg_exp)
  finally show ?thesis
    by (simp only: floor_less_iff)
qed

lemma scaled_lower:
  fixes x :: rat
  assumes "2 powi k \<le> \<bar>x\<bar>" "subnormal_exponent \<le> k"
  shows "2 ^ nat (k - subnormal_exponent) \<le> \<lfloor>\<bar>x\<bar> / 2 powi subnormal_exponent\<rfloor>"
proof -
  have "of_int (2 ^ nat (k - subnormal_exponent)) = (2::rat) powi (k - subnormal_exponent)"
    using assms(2) by (simp add: power_int_nonneg_exp)
  also have "\<dots> = 2 powi k / 2 powi subnormal_exponent"
    by (simp add: power_int_diff)
  also have "\<dots> \<le> \<bar>x\<bar> / 2 powi subnormal_exponent"
    using assms(1) by (simp add: divide_right_mono)
  finally show ?thesis
    by (simp only: le_floor_iff)
qed

lemma binary64_exponent_le:
  assumes "\<bar>x\<bar> < 2 powi k" "subnormal_exponent \<le> k - 53"
  shows "binary64_exponent x \<le> k - 53"
proof -
  have "bitlen \<lfloor>\<bar>x\<bar> / 2 powi subnormal_exponent\<rfloor> \<le> k - subnormal_exponent"
    using scaled_upper [OF assms(1)] assms(2) by (simp add: bitlen_le_iff_power)
  then show ?thesis
    using assms(2) by (simp add: binary64_exponent_def)
qed

lemma binary64_exponent_ge: "subnormal_exponent \<le> binary64_exponent x"
  by (simp add: binary64_exponent_def)

lemma binary64_exponent_eqI:
  assumes "2 powi (e + 52) \<le> \<bar>x\<bar>" "\<bar>x\<bar> < 2 powi (e + 53)" "subnormal_exponent \<le> e"
  shows "binary64_exponent x = e"
proof -
  let ?n = "\<lfloor>\<bar>x\<bar> / 2 powi subnormal_exponent\<rfloor>"
  have "?n < 2 ^ nat (e + 53 - subnormal_exponent)"
    using scaled_upper [OF assms(2)] assms(3) by simp
  then have le: "bitlen ?n \<le> e + 53 - subnormal_exponent"
    using assms(3) by (simp add: bitlen_le_iff_power)
  have "2 ^ nat (e + 52 - subnormal_exponent) \<le> ?n"
    using scaled_lower [OF assms(1)] assms(3) by simp
  moreover have "nat (e + 53 - subnormal_exponent) - 1 = nat (e + 52 - subnormal_exponent)"
    using assms(3) by linarith
  ultimately have ge: "e + 53 - subnormal_exponent \<le> bitlen ?n"
    by (simp add: bitlen_ge_iff_power)
  from le ge have "bitlen ?n = e + 53 - subnormal_exponent"
    by linarith
  then show ?thesis
    using assms(3) by (simp add: binary64_exponent_def)
qed

lemma binary64_error: "\<bar>binary64 x - x\<bar> \<le> 2 powi binary64_exponent x / 2"
proof -
  let ?p = "(2::rat) powi binary64_exponent x"
  have pos: "0 < ?p" by simp
  have "binary64 x - x = (of_int (round_half_even (x / ?p)) - x / ?p) * ?p"
    using pos by (simp add: binary64_def left_diff_distrib)
  then have "\<bar>binary64 x - x\<bar> = \<bar>of_int (round_half_even (x / ?p)) - x / ?p\<bar> * ?p"
    using pos by (simp add: abs_mult)
  also have "\<dots> \<le> 1 / 2 * ?p"
    using round_half_even_error [of "x / ?p"] pos by (simp only: mult_right_mono less_imp_le)
  finally show ?thesis by simp
qed

lemma binary64_error_below:
  assumes "\<bar>x\<bar> < 2 powi k" "subnormal_exponent \<le> k - 53"
  shows "\<bar>binary64 x - x\<bar> \<le> 2 powi (k - 54)"
proof -
  have "(2::rat) powi binary64_exponent x \<le> 2 powi (k - 53)"
    using binary64_exponent_le [OF assms] by (simp add: power_int_increasing)
  then have "(2::rat) powi binary64_exponent x / 2 \<le> 2 powi (k - 53) / 2"
    by simp
  also have "\<dots> = 2 powi (k - 54)"
    using power_int_diff [of "2::rat" "k - 53" 1] by simp
  finally show ?thesis
    using binary64_error [of x] by linarith
qed

lemma binary64_eqI:
  assumes "2 powi (e + 52) \<le> \<bar>x\<bar>" "\<bar>x\<bar> < 2 powi (e + 53)" "subnormal_exponent \<le> e"
    and "\<bar>x / 2 powi e - of_int m\<bar> < 1 / 2"
  shows "binary64 x = of_int m * 2 powi e"
  using assms by (simp add: binary64_def binary64_exponent_eqI round_half_even_eqI)

lemma binary64_7_10: "binary64 (7 / 10) = 3152519739159347 / 2 ^ 52"
proof -
  have "binary64 (7 / 10) = of_int 6305039478318694 * 2 powi (- 53)"
    by (rule binary64_eqI) (simp_all add: subnormal_exponent_def)
  then show ?thesis by simp
qed


lemma binary64_99_100: "binary64 (99 / 100) = 4458563631096791 / 2 ^ 52"
proof -
  have "binary64 (99 / 100) = of_int 8917127262193582 * 2 powi (- 53)"
    by (rule binary64_eqI) (simp_all add: subnormal_exponent_def)
  then show ?thesis by simp
qed

lemma binary64_width: "binary64 (binary64 (99 / 100) - binary64 (7 / 10)) = 326510972984361 / 2 ^ 50"
proof -
  have "binary64 (4458563631096791 / 2 ^ 52 - 3152519739159347 / 2 ^ 52)
          = of_int 5224175567749776 * 2 powi (- 54)"
    by (rule binary64_eqI) (simp_all add: subnormal_exponent_def)
  then show ?thesis by (simp add: binary64_7_10 binary64_99_100)
qed

lemma round_half_even_ge:
  assumes "of_int lo - 1 / 2 < x"
  shows "lo \<le> round_half_even x"
proof -
  have "(of_int lo :: rat) - 1 < of_int (round_half_even x)"
    using round_half_even_error [of x] assms by linarith
  then have "(of_int (lo - 1) :: rat) < of_int (round_half_even x)"
    by simp
  then have "lo - 1 < round_half_even x"
    by (simp only: of_int_less_iff)
  then show ?thesis by linarith
qed

lemma round_half_even_le:
  assumes "x < of_int hi + 1 / 2"
  shows "round_half_even x \<le> hi"
proof -
  have "(of_int (round_half_even x) :: rat) < of_int hi + 1"
    using round_half_even_error [of x] assms by linarith
  then have "(of_int (round_half_even x) :: rat) < of_int (hi + 1)"
    by simp
  then have "round_half_even x < hi + 1"
    by (simp only: of_int_less_iff)
  then show ?thesis by linarith
qed

lemma uniform_range:
  assumes "0 \<le> u" "u < 1"
  defines "x \<equiv> binary64 (binary64 (7 / 10)
                  + binary64 (binary64 (binary64 (99 / 100) - binary64 (7 / 10)) * u))"
  shows "139 / 200 < x" "x < 199 / 200"
proof -
  define w where "w = 326510972984361 / 2 ^ 50 * u"
  define t where "t = binary64 w"
  have w: "0 \<le> w" "w < 326510972984361 / 1125899906842624"
    using assms(1,2) by (simp_all add: w_def)
  then have "\<bar>w\<bar> < 2 powi (- 1)"
    by simp
  then have "\<bar>t - w\<bar> \<le> 2 powi (- 1 - 54)"
    unfolding t_def by (rule binary64_error_below) (simp add: subnormal_exponent_def)
  moreover have "(2::rat) powi (- 1 - 54) = 1 / 36028797018963968"
    by simp
  ultimately have tw: "\<bar>t - w\<bar> \<le> 1 / 36028797018963968"
    by (simp only:)
  have t: "- (1 / 36028797018963968) \<le> t"
          "t \<le> 326510972984361 / 1125899906842624 + 1 / 36028797018963968"
    using tw w by linarith+
  define s where "s = 3152519739159347 / 4503599627370496 + t"
  have s: "3152519739159347 / 4503599627370496 - 1 / 36028797018963968 \<le> s"
          "s \<le> 3152519739159347 / 4503599627370496
                + 326510972984361 / 1125899906842624 + 1 / 36028797018963968"
    using t by (simp_all only: s_def)
  then have "\<bar>s\<bar> < 1"
    by linarith
  then have "\<bar>s\<bar> < 2 powi 0"
    by simp
  then have "\<bar>binary64 s - s\<bar> \<le> 2 powi (0 - 54)"
    by (rule binary64_error_below) (simp add: subnormal_exponent_def)
  moreover have "(2::rat) powi (0 - 54) = 1 / 18014398509481984"
    by simp
  ultimately have xs: "\<bar>binary64 s - s\<bar> \<le> 1 / 18014398509481984"
    by (simp only:)
  have "x = binary64 (binary64 (7 / 10) + binary64 (326510972984361 / 2 ^ 50 * u))"
    by (simp only: x_def binary64_width)
  then have "x = binary64 s"
    by (simp add: t_def s_def w_def binary64_7_10)
  with xs s show "139 / 200 < x" "x < 199 / 200"
    by linarith+
qed


lemma hundredths_error:
  assumes "70 \<le> d" "d \<le> 99"
  shows "\<bar>binary64 (of_int d / 100) - of_int d / 100\<bar> \<le> 1 / 18014398509481984"
proof -
  have "(of_int d :: rat) \<le> 99" "(0::rat) \<le> of_int d"
    using assms by simp_all
  then have "\<bar>of_int d / 100 :: rat\<bar> < 2 powi 0"
    by simp
  then have "\<bar>binary64 (of_int d / 100) - of_int d / 100\<bar> \<le> 2 powi (0 - 54)"
    by (rule binary64_error_below) (simp add: subnormal_exponent_def)
  moreover have "(2::rat) powi (0 - 54) = 1 / 18014398509481984"
    by simp
  ultimately show ?thesis
    by (simp only:)
qed

lemma hundredths_between:
  assumes "70 \<le> d" "d \<le> 99"
  shows "binary64 (7 / 10) \<le> binary64 (of_int d / 100)"
    and "binary64 (of_int d / 100) \<le> binary64 (99 / 100)"
proof -
  define q :: rat where "q = of_int d / 100"
  have err: "\<bar>binary64 q - q\<bar> \<le> 1 / 18014398509481984"
    unfolding q_def by (rule hundredths_error [OF assms])
  have lo: "binary64 (7 / 10) = 3152519739159347 / 4503599627370496"
    and hi: "binary64 (99 / 100) = 4458563631096791 / 4503599627370496"
    by (simp_all add: binary64_7_10 binary64_99_100)
  have "binary64 (7 / 10) \<le> binary64 q"
  proof (cases "d = 70")
    case True
    then show ?thesis by (simp add: q_def)
  next
    case False
    with assms have "71 \<le> d" by simp
    then have "(71::rat) \<le> of_int d" by simp
    then have "71 / 100 \<le> q" by (simp add: q_def)
    with err show ?thesis unfolding lo by linarith
  qed
  then show "binary64 (7 / 10) \<le> binary64 (of_int d / 100)"
    by (simp only: q_def)
  have "binary64 q \<le> binary64 (99 / 100)"
  proof (cases "d = 99")
    case True
    then show ?thesis by (simp add: q_def)
  next
    case False
    with assms have "d \<le> 98" by simp
    then have "of_int d \<le> (98::rat)" by simp
    then have "q \<le> 98 / 100" by (simp add: q_def)
    with err show ?thesis unfolding hi by linarith
  qed
  then show "binary64 (of_int d / 100) \<le> binary64 (99 / 100)"
    by (simp only: q_def)
qed

lemma py_round_uniform:
  assumes "0 \<le> u" "u < 1"
  defines "x \<equiv> binary64 (binary64 (7 / 10)
                  + binary64 (binary64 (binary64 (99 / 100) - binary64 (7 / 10)) * u))"
  shows "\<exists>d. 70 \<le> d \<and> d \<le> 99 \<and> py_round x 2 = binary64 (of_int d / 100)"
proof -
  have x: "139 / 200 < x" "x < 199 / 200"
    unfolding x_def by (rule uniform_range [OF assms(1,2)])+
  have "of_int 70 - 1 / 2 < x * 10 ^ 2"
    using x(1) by simp
  then have lo: "70 \<le> round_half_even (x * 10 ^ 2)"
    by (rule round_half_even_ge)
  have "x * 10 ^ 2 < of_int 99 + 1 / 2"
    using x(2) by simp
  then have hi: "round_half_even (x * 10 ^ 2) \<le> 99"
    by (rule round_half_even_le)
  from lo hi show ?thesis
    by (auto simp: py_round_def)
qed

lemma percent_text:
  assumes "70 \<le> d" "d \<le> 99"
  shows "format_1f (binary64 (binary64 (of_int d / 100) * 100)) = str_of_nat (nat d) @ ''.0''"
proof -
  define c where "c = binary64 (of_int d / 100)"
  define p where "p = binary64 (c * 100)"
  have d: "(70::rat) \<le> of_int d" "of_int d \<le> (99::rat)"
    using assms by simp_all
  have c: "\<bar>c - of_int d / 100\<bar> \<le> 1 / 18014398509481984"
    unfolding c_def by (rule hundredths_error [OF assms])
  then have c100: "\<bar>c * 100 - of_int d\<bar> \<le> 100 / 18014398509481984"
    by linarith
  with d have "\<bar>c * 100\<bar> < 128"
    by linarith
  then have "\<bar>c * 100\<bar> < 2 powi 7"
    by simp
  then have "\<bar>p - c * 100\<bar> \<le> 2 powi (7 - 54)"
    unfolding p_def by (rule binary64_error_below) (simp add: subnormal_exponent_def)
  moreover have "(2::rat) powi (7 - 54) = 1 / 140737488355328"
    by simp
  ultimately have "\<bar>p - c * 100\<bar> \<le> 1 / 140737488355328"
    by (simp only:)
  with c100 have p: "\<bar>p - of_int d\<bar> \<le> 1 / 100"
    by linarith
  then have "\<bar>p * 10 - 10 * of_int d\<bar> < 1 / 2"
    by linarith
  then have "\<bar>p * 10 - of_int (10 * d)\<bar> < 1 / 2"
    by simp
  then have r: "round_half_even (p * 10) = 10 * d"
    by (rule round_half_even_eqI)
  have n: "nat \<bar>round_half_even (p * 10)\<bar> = 10 * nat d"
    using r assms by simp
  have "0 \<le> p"
    using p d by linarith
  then have "format_1f p = str_of_nat (nat d) @ ''.0''"
    unfolding format_1f_def n Let_def by (simp add: digit_def del: str_of_nat.simps)
  then show ?thesis
    by (simp only: p_def c_def)
qed

section \<open>Service A: the \<^verbatim>\<open>/process\<close> endpoint\<close>

lemma except_RequestException_fails: "isl (fst (except_RequestException e done))"
  by (simp add: except_RequestException_def)

lemma except_RequestException_calls:
  "outbound_calls (snd (except_RequestException e [LogInfo line, Post call])) = [call]"
  by (simp add: except_RequestException_def)

text \<open>
  C1. With \<^verbatim>\<open>forward_to_model\<close> true, when the call to the Back Service returns a response
  whose body decodes as JSON, \<^verbatim>\<open>POST /process\<close> returns the status
  \<^verbatim>\<open>"Input logged successfully"\<close> together with exactly that decoded body as
  \<^verbatim>\<open>model_prediction\<close>; it has made one outbound call, to the fixed URL, with the body
  \<^verbatim>\<open>{"input": data}\<close> and the timeout 3, and the body relayed is the answer to that call.
\<close>

theorem process_input_forwards:
  assumes "forward_to_model input_data"
    and "net (forward_call input_data) = Responds r"
    and "json r = Inr body"
  shows "fst (process_input net input_data)
           = Inr \<lparr>process_status = ''Input logged successfully'', model_prediction = Some body\<rparr>
         \<and> outbound_calls (snd (process_input net input_data)) = [forward_call input_data]
         \<and> forward_call input_data
           = \<lparr>url = ''http://localhost:8001/predict'',
              json_body = JObject [(''input'', JString (data input_data))],
              timeout = 3\<rparr>"
  using assms by (simp add: process_input_def forward_call_def SERVICE_B_URL_def)

theorem process_input_forwards_witness:
  "fst (process_input (\<lambda>call. Responds \<lparr>status_code = 200, json = Inr (json_body call)\<rparr>)
          \<lparr>data = ''hi'', forward_to_model = True\<rparr>)
     = Inr \<lparr>process_status = ''Input logged successfully'',
            model_prediction = Some (JObject [(''input'', JString ''hi'')])\<rparr>
   \<and> outbound_calls (snd (process_input
          (\<lambda>call. Responds \<lparr>status_code = 200, json = Inr (json_body call)\<rparr>)
          \<lparr>data = ''hi'', forward_to_model = True\<rparr>))
     = [\<lparr>url = ''http://localhost:8001/predict'',
         json_body = JObject [(''input'', JString ''hi'')],
         timeout = 3\<rparr>]"
  using process_input_forwards
    [of "\<lparr>data = ''hi'', forward_to_model = True\<rparr>"
        "\<lambda>call. Responds \<lparr>status_code = 200, json = Inr (json_body call)\<rparr>"
        "\<lparr>status_code = 200, json = Inr (JObject [(''input'', JString ''hi'')])\<rparr>"
        "JObject [(''input'', JString ''hi'')]"]
  by (simp add: forward_call_def)

text \<open>
  C3. With \<^verbatim>\<open>forward_to_model\<close> false, \<^verbatim>\<open>POST /process\<close> returns exactly the payload
  \<^verbatim>\<open>{status: "Input logged successfully"}\<close>, with no \<^verbatim>\<open>model_prediction\<close> field, and makes
  no outbound call, whatever the network would have answered.
\<close>

theorem process_input_no_forward:
  assumes "\<not> forward_to_model input_data"
  shows "fst (process_input net input_data)
           = Inr \<lparr>process_status = ''Input logged successfully'', model_prediction = None\<rparr>
         \<and> outbound_calls (snd (process_input net input_data)) = []"
  using assms by (simp add: process_input_def)

theorem process_input_no_forward_witness:
  "\<not> forward_to_model \<lparr>data = ''hi'', forward_to_model = False\<rparr>
   \<and> fst (process_input connection_refused \<lparr>data = ''hi'', forward_to_model = False\<rparr>)
     = Inr \<lparr>process_status = ''Input logged successfully'', model_prediction = None\<rparr>
   \<and> outbound_calls (snd (process_input connection_refused
          \<lparr>data = ''hi'', forward_to_model = False\<rparr>)) = []"
  using process_input_no_forward
    [of "\<lparr>data = ''hi'', forward_to_model = False\<rparr>" connection_refused]
  by simp

text \<open>
  C9. With \<^verbatim>\<open>forward_to_model\<close> true, a response of the Back Service with any status code
  (a 404 or a 500 as well as a 200) whose body decodes as JSON makes \<^verbatim>\<open>POST /process\<close>
  report success, with that body as \<^verbatim>\<open>model_prediction\<close>: the status code is never
  surfaced as a failure.
\<close>

theorem process_input_ignores_status_code:
  assumes "forward_to_model input_data"
    and "net (forward_call input_data) = Responds \<lparr>status_code = code, json = Inr body\<rparr>"
  shows "fst (process_input net input_data)
           = Inr \<lparr>process_status = ''Input logged successfully'', model_prediction = Some body\<rparr>
         \<and> \<not> isl (fst (process_input net input_data))"
  using assms by (simp add: process_input_def)

theorem process_input_ignores_status_code_witness:
  "fst (process_input
          (\<lambda>call. Responds \<lparr>status_code = 500,
                              json = Inr (JObject [(''detail'', JString ''Internal error'')])\<rparr>)
          \<lparr>data = ''hi'', forward_to_model = True\<rparr>)
     = Inr \<lparr>process_status = ''Input logged successfully'',
            model_prediction = Some (JObject [(''detail'', JString ''Internal error'')])\<rparr>"
  using process_input_ignores_status_code
    [of "\<lparr>data = ''hi'', forward_to_model = True\<rparr>"
        "\<lambda>call. Responds \<lparr>status_code = 500,
                             json = Inr (JObject [(''detail'', JString ''Internal error'')])\<rparr>"
        500 "JObject [(''detail'', JString ''Internal error'')]"]
  by simp

section \<open>Service B: what \<^verbatim>\<open>predict\<close> returns\<close>

lemma random_random_range: "0 \<le> fst (random_random g)" "fst (random_random g) < 1"
proof -
  have "shd g mod 2 ^ 53 < 2 ^ 53"
    by simp
  then have "(of_nat (shd g mod 2 ^ 53) :: rat) < of_nat (2 ^ 53)"
    by (simp only: of_nat_less_iff)
  then show "fst (random_random g) < 1"
    by (simp add: random_random_def)
  show "0 \<le> fst (random_random g)"
    by (simp add: random_random_def)
qed

lemma random_uniform_value:
  "random_uniform a b g = (binary64 (a + binary64 (binary64 (b - a) * fst (random_random g))), stl g)"
  by (simp add: random_uniform_def random_random_def)

lemma random_choice_nonempty:
  "seq \<noteq> [] \<Longrightarrow> random_choice seq g = (Inr (seq ! (shd g mod length seq)), stl g)"
  by (simp add: random_choice_def random_randbelow_def)

text \<open>The confidence drawn from a generator, and the prediction made in a state.\<close>

lemma SimpleMlModel_predict_nonempty:
  assumes "classes self \<noteq> []"
  shows "SimpleMlModel_predict self input_text s =
           (Inr \<lparr>predicted_class = classes self ! (shd (rng s) mod length (classes self)),
                 confidence =
                   py_round (fst (random_uniform (binary64 (7 / 10)) (binary64 (99 / 100))
                                    (stl (rng s)))) 2,
                 input_length = int (length input_text)\<rparr>,
            s\<lparr>log_lines := log_lines s @ [''Making prediction for input: '' @ input_text],
              rng := stl (stl (rng s))\<rparr>)"
  using assms
  by (simp add: SimpleMlModel_predict_def logger_info_def random_choice_nonempty
      random_uniform_value)

lemma logger_info_fields:
  "model (logger_info line s) = model s" "rng (logger_info line s) = rng s"
  by (simp_all add: logger_info_def)

lemma SimpleMlModel_predict_model:
  "model (snd (SimpleMlModel_predict self input_text s)) = model s"
  by (simp add: SimpleMlModel_predict_def Let_def logger_info_fields random_choice_def
      random_randbelow_def random_uniform_value)

lemma predict_model: "model (snd (predict request s)) = model s"
proof -
  define s1 where
    "s1 = logger_info (''Received prediction request with input: '' @ input request) s"
  have "model (snd (SimpleMlModel_predict (model s1) (input request) s1)) = model s"
    by (simp add: SimpleMlModel_predict_model s1_def logger_info_fields)
  then have "model (snd (case SimpleMlModel_predict (model s1) (input request) s1 of
                           (Inl e, s2) \<Rightarrow> (Inl (Uncaught e), s2)
                         | (Inr p, s2) \<Rightarrow> (Inr (f p), s2))) = model s" for f :: "PredictionResult \<Rightarrow> PredictionResponse"
    by (cases "SimpleMlModel_predict (model s1) (input request) s1";
        cases "fst (SimpleMlModel_predict (model s1) (input request) s1)") simp_all
  then show ?thesis
    unfolding predict_def Let_def s1_def .
qed

lemma service_b_model: "model (snd (service_b r s)) = model s"
proof (cases r)
  case (B_predict request)
  then show ?thesis
    using predict_model [of request s]
    by (cases "predict request s"; cases "fst (predict request s)") simp_all
qed simp_all

lemma service_b_serve_model: "model (service_b_serve rs s) = model s"
  by (induction rs arbitrary: s) (simp_all add: service_b_model)

lemma service_b_start_model:
  "model (service_b_start seed) = \<lparr>classes = [''cat'', ''dog'', ''bird'', ''fish'', ''rabbit'']\<rparr>"
  by (simp add: service_b_start_def SimpleMlModel_init_def)

lemma reachable_classes:
  "classes (model (service_b_serve rs (service_b_start seed)))
     = [''cat'', ''dog'', ''bird'', ''fish'', ''rabbit'']"
  by (simp add: service_b_serve_model service_b_start_model)

lemma predict_nonempty:
  assumes "classes (model s) \<noteq> []"
  shows "fst (predict request s) =
           Inr \<lparr>prediction =
                  \<lparr>predicted_class =
                     classes (model s) ! (shd (rng s) mod length (classes (model s))),
                   confidence =
                     py_round (fst (random_uniform (binary64 (7 / 10)) (binary64 (99 / 100))
                                      (stl (rng s)))) 2,
                   input_length = int (length (input request))\<rparr>,
                message =
                  ''Predicted class: ''
                  @ classes (model s) ! (shd (rng s) mod length (classes (model s)))
                  @ '' with ''
                  @ format_1f (binary64
                      (py_round (fst (random_uniform (binary64 (7 / 10)) (binary64 (99 / 100))
                                        (stl (rng s)))) 2 * 100))
                  @ ''% confidence''\<rparr>"
  using assms
  by (simp add: predict_def Let_def logger_info_fields SimpleMlModel_predict_nonempty)

lemma confidence_draw:
  "\<exists>d. 70 \<le> d \<and> d \<le> 99
     \<and> py_round (fst (random_uniform (binary64 (7 / 10)) (binary64 (99 / 100)) g)) 2
         = binary64 (of_int d / 100)"
  unfolding random_uniform_value fst_conv
  by (rule py_round_uniform) (rule random_random_range)+

text \<open>
  A worked example: a generator that only ever draws 0 picks the first label and the lower
  end of the interval, so \<^verbatim>\<open>POST /predict {"input": "hello"}\<close> then answers with the class
  cat, the confidence \<^verbatim>\<open>0.7\<close>, the length 5 and the message below.
\<close>

lemma binary64_zero: "binary64 0 = 0"
  by (simp add: binary64_def round_half_even_def)

lemma binary64_idem_7_10:
  "binary64 (3152519739159347 / 4503599627370496) = 3152519739159347 / 4503599627370496"
proof -
  have "binary64 (3152519739159347 / 4503599627370496)
          = of_int 6305039478318694 * 2 powi (- 53)"
    by (rule binary64_eqI) (simp_all add: subnormal_exponent_def)
  then show ?thesis by simp
qed

lemma predict_hello_example:
  "fst (predict \<lparr>input = ''hello''\<rparr> (service_b_start (sconst 0)))
     = Inr \<lparr>prediction =
              \<lparr>predicted_class = ''cat'', confidence = binary64 (7 / 10), input_length = 5\<rparr>,
            message = ''Predicted class: cat with 70.0% confidence''\<rparr>"
proof -
  let ?s = "service_b_start (sconst 0)"
  have s: "classes (model ?s) = [''cat'', ''dog'', ''bird'', ''fish'', ''rabbit'']"
    "rng ?s = sconst 0"
    by (simp_all add: service_b_start_def SimpleMlModel_init_def logger_info_def)
  have "random_random (sconst 0) = (0, sconst 0)"
    by (simp add: random_random_def)
  then have "fst (random_uniform (binary64 (7 / 10)) (binary64 (99 / 100)) (sconst 0))
          = binary64 (binary64 (7 / 10) + binary64 0)"
    by (simp only: random_uniform_value fst_conv mult_zero_right)
  also have "\<dots> = binary64 (3152519739159347 / 4503599627370496)"
    by (simp add: binary64_zero binary64_7_10)
  finally have u: "fst (random_uniform (binary64 (7 / 10)) (binary64 (99 / 100)) (sconst 0))
          = 3152519739159347 / 4503599627370496"
    by (simp only: binary64_idem_7_10)
  have r: "round_half_even (3152519739159347 / 4503599627370496 * 10 ^ 2) = 70"
    by (rule round_half_even_eqI) simp
  have c: "py_round (fst (random_uniform (binary64 (7 / 10)) (binary64 (99 / 100))
                            (sconst 0))) 2 = binary64 (7 / 10)"
    unfolding py_round_def u r by simp
  have "format_1f (binary64 (binary64 (of_int 70 / 100) * 100)) = str_of_nat (nat 70) @ ''.0''"
    by (rule percent_text) simp_all
  then have p: "format_1f (binary64 (binary64 (7 / 10) * 100)) = ''70.0''"
    by (simp add: digit_def)
  have "classes (model ?s) \<noteq> []"
    by (simp add: s)
  then show ?thesis
    by (simp add: predict_nonempty s c p)
qed

section \<open>Service B: the \<^verbatim>\<open>/predict\<close> endpoint\<close>

text \<open>
  The claims below are about the running service: the state reached from process start, with
  any seed of the generator, by serving any sequence of requests.
\<close>

text \<open>
  C4. In every reachable state and for every request, \<^verbatim>\<open>POST /predict\<close> returns a
  prediction whose class is one of the five labels cat, dog, bird, fish and rabbit; the label
  list of the model is that list in every reachable state, before and after the request: it is
  set at process start and no operation changes it.
\<close>

theorem predict_class_in_labels:
  "\<exists>r. fst (predict request (service_b_serve rs (service_b_start seed))) = Inr r
       \<and> predicted_class (prediction r) \<in> set [''cat'', ''dog'', ''bird'', ''fish'', ''rabbit'']
       \<and> classes (model (service_b_start seed))
           = [''cat'', ''dog'', ''bird'', ''fish'', ''rabbit'']
       \<and> classes (model (service_b_serve rs (service_b_start seed)))
           = [''cat'', ''dog'', ''bird'', ''fish'', ''rabbit'']
       \<and> classes (model (snd (predict request (service_b_serve rs (service_b_start seed)))))
           = [''cat'', ''dog'', ''bird'', ''fish'', ''rabbit'']"
proof -
  let ?s = "service_b_serve rs (service_b_start seed)"
  let ?labels = "[''cat'', ''dog'', ''bird'', ''fish'', ''rabbit'']"
  have labels: "classes (model ?s) = ?labels"
    by (rule reachable_classes)
  have "shd (rng ?s) mod length ?labels < length ?labels"
    by simp
  then have "?labels ! (shd (rng ?s) mod length ?labels) \<in> set ?labels"
    by (rule nth_mem)
  moreover have "classes (model ?s) \<noteq> []"
    by (simp add: labels)
  ultimately show ?thesis
    by (simp add: predict_nonempty predict_model labels service_b_start_model
        del: set_simps nth_Cons_numeral)
qed

text \<open>
  C5. In every reachable state, the \<^verbatim>\<open>input_length\<close> of the prediction for the input \<open>s\<close> is
  the number of characters of \<open>s\<close>, an integer that is not negative; for the input
  \<^verbatim>\<open>"hello"\<close> it is 5.
\<close>

theorem predict_input_length:
  "(\<exists>r. fst (predict request (service_b_serve rs (service_b_start seed))) = Inr r
        \<and> input_length (prediction r) = int (length (input request))
        \<and> 0 \<le> input_length (prediction r))
   \<and> (\<exists>r. fst (predict \<lparr>input = ''hello''\<rparr> (service_b_serve rs (service_b_start seed))) = Inr r
        \<and> input_length (prediction r) = 5)"
proof -
  have "classes (model (service_b_serve rs (service_b_start seed))) \<noteq> []"
    by (simp add: reachable_classes)
  then show ?thesis
    by (simp add: predict_nonempty)
qed

text \<open>
  C6. In every reachable state and for every request, the confidence of the prediction is
  the double \<open>d / 100\<close> for an integer \<open>d\<close> from 70 to 99 (the double nearest to that number
  of hundredths, less than \<open>2 powi -54\<close> away from it), and it lies between the doubles
  \<^verbatim>\<open>0.7\<close> and \<^verbatim>\<open>0.99\<close>, both included.
\<close>

theorem predict_confidence_range:
  "\<exists>r d. fst (predict request (service_b_serve rs (service_b_start seed))) = Inr r
       \<and> binary64 (7 / 10) \<le> confidence (prediction r)
       \<and> confidence (prediction r) \<le> binary64 (99 / 100)
       \<and> 70 \<le> d \<and> d \<le> 99
       \<and> confidence (prediction r) = binary64 (of_int d / 100)
       \<and> \<bar>confidence (prediction r) - of_int d / 100\<bar> \<le> 1 / 2 ^ 54"
proof -
  let ?s = "service_b_serve rs (service_b_start seed)"
  let ?c = "py_round (fst (random_uniform (binary64 (7 / 10)) (binary64 (99 / 100))
                             (stl (rng ?s)))) 2"
  obtain d where d: "70 \<le> d" "d \<le> 99" "?c = binary64 (of_int d / 100)"
    using confidence_draw [of "stl (rng ?s)"] by blast
  have "binary64 (7 / 10) \<le> ?c" "?c \<le> binary64 (99 / 100)"
    unfolding d(3) by (rule hundredths_between [OF d(1,2)])+
  moreover have "\<bar>?c - of_int d / 100\<bar> \<le> 1 / 2 ^ 54"
    unfolding d(3) using hundredths_error [OF d(1,2)] by simp
  moreover have "classes (model ?s) \<noteq> []"
    by (simp add: reachable_classes)
  ultimately show ?thesis
    using d by (auto simp: predict_nonempty)
qed

text \<open>
  C7. In every reachable state and for every request, the message of the response is the
  text \<^verbatim>\<open>Predicted class: \<close>, the class of the prediction in the same response,
  \<^verbatim>\<open> with \<close>, the confidence of that prediction times 100 printed with one decimal, and
  \<^verbatim>\<open>% confidence\<close>. The class occurs in the message, and so does the percentage, which is
  the number \<open>d\<close> of hundredths of the confidence followed by \<^verbatim>\<open>.0\<close>.
\<close>

theorem predict_message:
  "\<exists>r d. fst (predict request (service_b_serve rs (service_b_start seed))) = Inr r
       \<and> message r
           = ''Predicted class: '' @ predicted_class (prediction r) @ '' with ''
             @ format_1f (binary64 (confidence (prediction r) * 100)) @ ''% confidence''
       \<and> sublist (predicted_class (prediction r)) (message r)
       \<and> sublist (format_1f (binary64 (confidence (prediction r) * 100))) (message r)
       \<and> 70 \<le> d \<and> d \<le> 99
       \<and> confidence (prediction r) = binary64 (of_int d / 100)
       \<and> format_1f (binary64 (confidence (prediction r) * 100)) = str_of_nat (nat d) @ ''.0''"
proof -
  let ?s = "service_b_serve rs (service_b_start seed)"
  let ?c = "py_round (fst (random_uniform (binary64 (7 / 10)) (binary64 (99 / 100))
                             (stl (rng ?s)))) 2"
  obtain d where d: "70 \<le> d" "d \<le> 99" "?c = binary64 (of_int d / 100)"
    using confidence_draw [of "stl (rng ?s)"] by blast
  have pct: "format_1f (binary64 (?c * 100)) = str_of_nat (nat d) @ ''.0''"
    unfolding d(3) by (rule percent_text [OF d(1,2)])
  have nonempty: "classes (model ?s) \<noteq> []"
    by (simp add: reachable_classes)
  define cls where
    "cls = classes (model ?s) ! (shd (rng ?s) mod length (classes (model ?s)))"
  define r where
    "r = \<lparr>prediction =
             \<lparr>predicted_class = cls, confidence = ?c,
              input_length = int (length (input request))\<rparr>,
           message =
             ''Predicted class: '' @ cls @ '' with '' @ format_1f (binary64 (?c * 100))
             @ ''% confidence''\<rparr>"
  have sel: "predicted_class (prediction r) = cls" "confidence (prediction r) = ?c"
    "message r
       = ''Predicted class: '' @ cls @ '' with '' @ format_1f (binary64 (?c * 100))
         @ ''% confidence''"
    by (simp_all add: r_def)
  have in_message: "sublist b (a @ b @ c)" "sublist d' (a @ b @ c @ d' @ e)"
    for a b c d' e :: string
    by (metis sublist_appendI, metis append.assoc sublist_appendI)
  have returned: "fst (predict request ?s) = Inr r"
    unfolding predict_nonempty [OF nonempty] r_def cls_def ..
  have built: "message r
      = ''Predicted class: '' @ predicted_class (prediction r) @ '' with ''
        @ format_1f (binary64 (confidence (prediction r) * 100)) @ ''% confidence''"
    unfolding sel ..
  have has_class: "sublist (predicted_class (prediction r)) (message r)"
    unfolding sel by (rule in_message(1))
  have has_percent:
    "sublist (format_1f (binary64 (confidence (prediction r) * 100))) (message r)"
    unfolding sel by (rule in_message(2))
  have hundredths: "confidence (prediction r) = binary64 (of_int d / 100)"
    unfolding sel by (rule d(3))
  have percent: "format_1f (binary64 (confidence (prediction r) * 100)) = str_of_nat (nat d) @ ''.0''"
    unfolding sel by (rule pct)
  from returned built has_class has_percent d(1,2) hundredths percent show ?thesis
    by blast
qed

text \<open>
  C10. The class and the confidence do not depend on the input text: two calls of
  \<^verbatim>\<open>SimpleMlModel.predict\<close> on any two texts, in states with the same generator, fail alike
  or return results that are equal but for \<^verbatim>\<open>input_length\<close>, and leave the generator in
  the same state.
\<close>

theorem predict_ignores_input:
  assumes "rng s = rng s'"
  shows "((\<exists>e. fst (SimpleMlModel_predict self x s) = Inl e
              \<and> fst (SimpleMlModel_predict self y s') = Inl e)
          \<or> (\<exists>r. fst (SimpleMlModel_predict self x s) = Inr r
              \<and> fst (SimpleMlModel_predict self y s') = Inr (r\<lparr>input_length := int (length y)\<rparr>)
              \<and> predicted_class (r\<lparr>input_length := int (length y)\<rparr>) = predicted_class r
              \<and> confidence (r\<lparr>input_length := int (length y)\<rparr>) = confidence r))
         \<and> rng (snd (SimpleMlModel_predict self x s)) = rng (snd (SimpleMlModel_predict self y s'))"
proof (cases "classes self = []")
  case True
  then show ?thesis
    using assms
    by (simp add: SimpleMlModel_predict_def Let_def logger_info_fields random_choice_def)
next
  case False
  then show ?thesis
    using assms by (simp add: SimpleMlModel_predict_nonempty)
qed

theorem predict_ignores_input_witness:
  "(\<exists>r. fst (SimpleMlModel_predict (model (service_b_start (sconst 0))) ''hi''
             (service_b_start (sconst 0))) = Inr r
       \<and> fst (SimpleMlModel_predict (model (service_b_start (sconst 0))) ''hello''
               ((service_b_start (sconst 0))\<lparr>log_lines := []\<rparr>))
           = Inr (r\<lparr>input_length := 5\<rparr>)
       \<and> predicted_class r = ''cat'')"
proof -
  let ?s = "service_b_start (sconst 0)"
  have same: "rng ?s = rng (?s\<lparr>log_lines := []\<rparr>)"
    by simp
  have nonempty: "classes (model ?s) \<noteq> []"
    by (simp add: service_b_start_model)
  have "predicted_class r = ''cat''"
    if "fst (SimpleMlModel_predict (model ?s) ''hi'' ?s) = Inr r" for r
    using that unfolding SimpleMlModel_predict_nonempty [OF nonempty]
    by (auto simp: service_b_start_model service_b_start_def SimpleMlModel_init_def
        logger_info_def)
  moreover have "\<nexists>e. fst (SimpleMlModel_predict (model ?s) ''hi'' ?s) = Inl e"
    unfolding SimpleMlModel_predict_nonempty [OF nonempty] by simp
  ultimately show ?thesis
    using predict_ignores_input [OF same, of "model ?s" "''hi''" "''hello''"]
    by auto
qed

section \<open>Both services: fixed payloads and the one failure path\<close>

lemma service_b_succeeds:
  "\<not> isl (fst (service_b request (service_b_serve rs (service_b_start seed))))"
proof (cases request)
  case (B_predict p)
  have "classes (model (service_b_serve rs (service_b_start seed))) \<noteq> []"
    by (simp add: reachable_classes)
  then have "\<not> isl (fst (predict p (service_b_serve rs (service_b_start seed))))"
    by (simp only: predict_nonempty sum.disc not_False_eq_True)
  then show ?thesis
    unfolding B_predict
    by (cases "predict p (service_b_serve rs (service_b_start seed))";
        cases "fst (predict p (service_b_serve rs (service_b_start seed)))") simp_all
qed simp_all

lemma service_a_process_fails:
  "isl (fst (service_a net (A_process_input input_data)))
     \<longleftrightarrow> isl (fst (process_input net input_data))"
  by (cases "process_input net input_data"; cases "fst (process_input net input_data)") simp_all

lemma process_input_caught:
  assumes "forward_to_model input_data"
    and "net (forward_call input_data) = Raises e
         \<or> (\<exists>r. net (forward_call input_data) = Responds r \<and> json r = Inl e)"
  shows "process_input net input_data =
           except_RequestException e
             [LogInfo (''Received input: '' @ data input_data), Post (forward_call input_data)]"
  using assms by (auto simp: process_input_def)

text \<open>
  C8. \<^verbatim>\<open>GET /health\<close> returns, on either service, the payload with the name of the service
  and the status \<^verbatim>\<open>"healthy"\<close>, and \<^verbatim>\<open>GET /\<close> a payload with the status \<^verbatim>\<open>"running"\<close>:
  whatever the network is like, in any state of the prediction service, without failing and
  without changing the state or calling out.
\<close>

theorem health_and_root_payloads:
  "fst (service_a net A_health_check)
     = Inr (A_identity \<lparr>service = ''Service A'', status = ''healthy''\<rparr>)
   \<and> fst (service_b B_health_check s)
     = Inr (B_identity \<lparr>service = ''Service B'', status = ''healthy''\<rparr>)
   \<and> fst (service_a net A_read_root)
     = Inr (A_identity \<lparr>service = ''Service A - Input Logger'', status = ''running''\<rparr>)
   \<and> fst (service_b B_read_root s)
     = Inr (B_identity \<lparr>service = ''Service B - ML Prediction'', status = ''running''\<rparr>)
   \<and> status service_a_health_check = ''healthy'' \<and> status service_b_health_check = ''healthy''
   \<and> status service_a_read_root = ''running'' \<and> status service_b_read_root = ''running''
   \<and> snd (service_a net A_health_check) = [] \<and> snd (service_a net A_read_root) = []
   \<and> snd (service_b B_health_check s) = s \<and> snd (service_b B_read_root s) = s"
  by (simp add: service_a_health_check_def service_b_health_check_def service_a_read_root_def
      service_b_read_root_def)

text \<open>
  C2, as the program has it. \<^verbatim>\<open>POST /process\<close> fails exactly when \<^verbatim>\<open>forward_to_model\<close> is
  true and either the outbound call raises (a transport failure or a timeout) or the body of
  the response it returned cannot be decoded as JSON. When what was raised is a
  \<^verbatim>\<open>requests.RequestException\<close>, as a refused connection and both timeouts are, the handler
  answers 503 with the detail \<^verbatim>\<open>Service B is unavailable: \<close> followed by the text of the
  failure, after exactly one outbound call, with the timeout 3; any other exception escapes
  the handler. No other operation of either service fails.
\<close>

theorem process_input_failure_modes:
  "(isl (fst (process_input net input_data)) \<longleftrightarrow>
      forward_to_model input_data
      \<and> (case net (forward_call input_data) of
           Raises x \<Rightarrow> True
         | Responds r \<Rightarrow> isl (json r)))
   \<and> (forward_to_model input_data \<longrightarrow>
       (net (forward_call input_data) = Raises e
        \<or> (\<exists>r. net (forward_call input_data) = Responds r \<and> json r = Inl e)) \<longrightarrow>
         (if is_RequestException (exc_class e)
          then fst (process_input net input_data)
                 = Inl (HTTPException 503 (''Service B is unavailable: '' @ str_of_exc e))
          else fst (process_input net input_data) = Inl (Uncaught e))
         \<and> suffix (str_of_exc e) (''Service B is unavailable: '' @ str_of_exc e)
         \<and> outbound_calls (snd (process_input net input_data)) = [forward_call input_data]
         \<and> timeout (forward_call input_data) = 3)
   \<and> (is_Timeout c \<longrightarrow> is_RequestException c)
   \<and> is_RequestException ConnectionError
   \<and> (isl (fst (service_a net (A_process_input input_data)))
        \<longleftrightarrow> isl (fst (process_input net input_data)))
   \<and> \<not> isl (fst (service_a net A_read_root))
   \<and> \<not> isl (fst (service_a net A_health_check))
   \<and> \<not> isl (fst (service_b request (service_b_serve rs (service_b_start seed))))"
proof -
  have fails: "isl (fst (process_input net input_data)) \<longleftrightarrow>
      forward_to_model input_data
      \<and> (case net (forward_call input_data) of
           Raises x \<Rightarrow> True
         | Responds r \<Rightarrow> isl (json r))"
    by (simp add: process_input_def Let_def except_RequestException_fails
        split: post_result.split sum.split)
  have caught: "(if is_RequestException (exc_class e)
          then fst (process_input net input_data)
                 = Inl (HTTPException 503 (''Service B is unavailable: '' @ str_of_exc e))
          else fst (process_input net input_data) = Inl (Uncaught e))
         \<and> suffix (str_of_exc e) (''Service B is unavailable: '' @ str_of_exc e)
         \<and> outbound_calls (snd (process_input net input_data)) = [forward_call input_data]
         \<and> timeout (forward_call input_data) = 3"
    if "forward_to_model input_data"
      and "net (forward_call input_data) = Raises e
           \<or> (\<exists>r. net (forward_call input_data) = Responds r \<and> json r = Inl e)"
    unfolding process_input_caught [where net = net and input_data = input_data and e = e, OF that]
    by (simp add: except_RequestException_def forward_call_def suffix_def)
  have timeouts: "is_Timeout c \<longrightarrow> is_RequestException c"
    by (cases c) simp_all
  show ?thesis
    using fails caught timeouts service_a_process_fails [of net input_data]
      service_b_succeeds [of request rs seed]
    by simp
qed

theorem process_input_failure_modes_witness:
  "fst (process_input connection_refused \<lparr>data = ''hi'', forward_to_model = True\<rparr>)
     = Inl (HTTPException 503 ''Service B is unavailable: Connection refused'')
   \<and> fst (process_input read_timed_out \<lparr>data = ''hi'', forward_to_model = True\<rparr>)
     = Inl (HTTPException 503 ''Service B is unavailable: Read timed out. (read timeout=3)'')
   \<and> outbound_calls (snd (process_input connection_refused
        \<lparr>data = ''hi'', forward_to_model = True\<rparr>))
     = [forward_call \<lparr>data = ''hi'', forward_to_model = True\<rparr>]
   \<and> is_RequestException ReadTimeout"
  using process_input_failure_modes
      [where net = connection_refused
         and input_data = "\<lparr>data = ''hi'', forward_to_model = True\<rparr>"
         and e = "PyException ConnectionError ''Connection refused''"
         and c = ReadTimeout]
    process_input_failure_modes
      [where net = read_timed_out
         and input_data = "\<lparr>data = ''hi'', forward_to_model = True\<rparr>"
         and e = "PyException ReadTimeout ''Read timed out. (read timeout=3)''"
         and c = ReadTimeout]
  by (simp add: connection_refused_def read_timed_out_def)

text \<open>
  C2 with a transport failure or a timeout as the only way to fail does not hold: when the
  peer answers with a page that is not JSON, nothing was raised by the call, and
  \<^verbatim>\<open>POST /process\<close> fails all the same, with the 503.
\<close>

theorem process_input_fails_on_html_page:
  "\<not> (isl (fst (process_input html_error_page \<lparr>data = ''hi'', forward_to_model = True\<rparr>))
        \<longleftrightarrow> forward_to_model \<lparr>data = ''hi'', forward_to_model = True\<rparr>
            \<and> is_Raises (html_error_page
                  (forward_call \<lparr>data = ''hi'', forward_to_model = True\<rparr>)))
   \<and> fst (process_input html_error_page \<lparr>data = ''hi'', forward_to_model = True\<rparr>)
     = Inl (HTTPException 503
              ''Service B is unavailable: Expecting value: line 1 column 1 (char 0)'')"
  by (simp add: process_input_def html_error_page_def except_RequestException_def)

end
